theory Spec2Isabelle
  imports Main
begin

section \<open>Python strings and the regular expressions of the status parser\<close>

text \<open>
  A Python \<open>str\<close> is modelled as a \<open>string\<close>: a list of characters, each standing for
  the code point of the same number (so the model covers the code points below 256).
  \<open>needle in haystack\<close> on two strings is the substring test.
\<close>

fun py_in :: "string \<Rightarrow> string \<Rightarrow> bool" where
  "py_in needle [] = (needle = [])"
| "py_in needle (x # xs) = (take (length needle) (x # xs) = needle \<or> py_in needle xs)"

text \<open>
  The character classes the patterns use: \<open>\s\<close> (the whitespace of a \<open>str\<close> pattern:
  tab, line feed, vertical tab, form feed, carriage return, the separators 28 to 31, space,
  NEL 133 and the no-break space 160), \<open>\d\<close> (below 256 only the ten ASCII digits are
  decimal digits) and \<open>.\<close> (without DOTALL: everything but the line feed).
\<close>

datatype cls = Space | Digit | Dot

fun in_cls :: "cls \<Rightarrow> char \<Rightarrow> bool" where
  "in_cls Space c = (of_char c \<in> {9, 10, 11, 12, 13, 28, 29, 30, 31, 32, 133, 160 :: nat})"
| "in_cls Digit c = (48 \<le> (of_char c :: nat) \<and> (of_char c :: nat) \<le> 57)"
| "in_cls Dot c = (c \<noteq> CHR 0x0A)"

text \<open>
  Every pattern of the source is a sequence of literals and of greedy repetitions of one
  character class: \<open>Lit\<close> is literal text, \<open>Star c\<close> is \<open>c*\<close> and \<open>Plus c\<close> is \<open>c+\<close>.
  \<open>rmatch p s\<close> matches the sequence \<open>p\<close> at the start of \<open>s\<close> the way the backtracking
  matcher does (a repetition takes as much as it can and gives back one character at a time)
  and returns the text each item consumed in the first match found.
\<close>

datatype item = Lit string | Star cls | Plus cls

fun rmatch :: "item list \<Rightarrow> string \<Rightarrow> string list option" where
  "rmatch [] s = Some []"
| "rmatch (Lit l # r) s =
     (if take (length l) s = l then map_option ((#) l) (rmatch r (drop (length l) s)) else None)"
| "rmatch (Star c # r) [] = map_option ((#) []) (rmatch r [])"
| "rmatch (Star c # r) (x # xs) =
     (if in_cls c x then
        (case rmatch (Star c # r) xs of
           Some (g # gs) \<Rightarrow> Some ((x # g) # gs)
         | _ \<Rightarrow> map_option ((#) []) (rmatch r (x # xs)))
      else map_option ((#) []) (rmatch r (x # xs)))"
| "rmatch (Plus c # r) [] = None"
| "rmatch (Plus c # r) (x # xs) =
     (if in_cls c x then
        (case rmatch (Star c # r) xs of
           Some (g # gs) \<Rightarrow> Some ((x # g) # gs)
         | _ \<Rightarrow> None)
      else None)"

text \<open>
  \<open>re.search\<close> tries the positions of the subject from left to right and returns the first
  match. A pattern that starts with \<open>^\<close> under \<open>re.MULTILINE\<close> can only match at the
  start of the subject or right after a line feed; \<open>bol\<close> says whether the current position
  is such a place.
\<close>

record regex =
  multiline_caret :: bool
  items :: "item list"

fun search_from :: "regex \<Rightarrow> bool \<Rightarrow> string \<Rightarrow> string list option" where
  "search_from re bol [] = (if multiline_caret re \<and> \<not> bol then None else rmatch (items re) [])"
| "search_from re bol (x # xs) =
     (case (if multiline_caret re \<and> \<not> bol then None else rmatch (items re) (x # xs)) of
        Some m \<Rightarrow> Some m
      | None \<Rightarrow> search_from re (x = CHR 0x0A) xs)"

definition re_search :: "regex \<Rightarrow> string \<Rightarrow> string list option" where
  "re_search re s = search_from re True s"

text \<open>The five patterns of \<open>_update_status\<close>, in the order of the source.\<close>

definition re_active_running :: regex where
  "re_active_running = \<lparr>multiline_caret = True,
     items = [Star Space, Lit ''Active:'', Plus Space, Lit ''active (running)'', Star Dot]\<rparr>"

definition re_main_pid_exited :: regex where
  "re_main_pid_exited = \<lparr>multiline_caret = True,
     items = [Star Space, Lit ''Main PID:'', Star Dot, Lit ''(code=exited)'', Star Dot]\<rparr>"

definition re_inactive_dead :: regex where
  "re_inactive_dead = \<lparr>multiline_caret = True,
     items = [Star Space, Lit ''Active:'', Plus Space, Lit ''inactive (dead)'', Star Dot]\<rparr>"

definition re_loaded_enabled :: regex where
  "re_loaded_enabled = \<lparr>multiline_caret = False,
     items = [Lit ''Loaded: '', Star Dot, Lit ''; enabled;'']\<rparr>"

definition re_loaded_disabled :: regex where
  "re_loaded_disabled = \<lparr>multiline_caret = False,
     items = [Lit ''Loaded: '', Star Dot, Lit ''; disabled;'']\<rparr>"

definition re_main_pid :: regex where
  "re_main_pid = \<lparr>multiline_caret = True,
     items = [Star Space, Lit ''Main PID:'', Plus Space, Plus Digit]\<rparr>"

text \<open>
  The only capturing group of the source, \<open>(\d+)\<close>, is the fourth item of \<open>re_main_pid\<close>;
  \<open>group1\<close> reads it.
\<close>

definition group1 :: "string list \<Rightarrow> string" where
  "group1 m = (case m of [_, _, _, g] \<Rightarrow> g | _ \<Rightarrow> [])"

text \<open>
  The exceptions: the \<open>ValueError\<close> the source raises, with its message, and the
  \<open>ValueError\<close> that \<open>int\<close> raises on a string of more digits than the interpreter
  converts (4300 unless reconfigured), which carries the number of digits.
\<close>

datatype error = ValueError string | ValueError_int_max_str_digits nat

definition int_max_str_digits :: nat where
  "int_max_str_digits = 4300"

text \<open>
  \<open>py_int\<close> is \<open>int\<close> on a non-empty string of ASCII digits, which is what the source
  passes it: a match of \<open>\d+\<close>. Leading zeros are allowed and count as digits.
\<close>

definition py_int :: "string \<Rightarrow> error + int" where
  "py_int ds =
     (if int_max_str_digits < length ds
      then Inl (ValueError_int_max_str_digits (length ds))
      else Inr (foldl (\<lambda>a d. 10 * a + (int (of_char d) - 48)) 0 ds))"

section \<open>The constants of \<open>constants/DSystemCtl.py\<close>\<close>

definition SYSTEMCTL :: string where "SYSTEMCTL = ''systemctl''"
definition SUDO :: string where "SUDO = ''sudo''"
definition TIMEOUT :: int where "TIMEOUT = 10"

definition DSystemCtl_ENABLE :: string where "DSystemCtl_ENABLE = ''enable''"
definition DSystemCtl_DISABLE :: string where "DSystemCtl_DISABLE = ''disable''"
definition DSystemCtl_RESTART :: string where "DSystemCtl_RESTART = ''restart''"
definition DSystemCtl_STATUS :: string where "DSystemCtl_STATUS = ''status''"
definition DSystemCtl_START :: string where "DSystemCtl_START = ''start''"
definition DSystemCtl_STOP :: string where "DSystemCtl_STOP = ''stop''"

definition DMsg_NO_SERVICE_NAME :: string where
  "DMsg_NO_SERVICE_NAME = ''service name not specified''"
definition DMsg_NOT_FOUND :: string where "DMsg_NOT_FOUND = ''could not be found''"
definition DMsg_TIMEOUT :: string where "DMsg_TIMEOUT = ''systemctl timed out''"

definition ExitCode_OK :: int where "ExitCode_OK = 0"
definition ExitCode_ERROR :: int where "ExitCode_ERROR = 5"

section \<open>The object, the world around it and the external process\<close>

text \<open>
  \<open>self.result\<close> is a dictionary that always holds the same five keys, the constants of
  \<open>DResult\<close> (a module that is not among the sources; its five keys are taken to be
  distinct). It is modelled as a record with one field for each key. \<open>None\<close> is an unknown
  value.
\<close>

record result =
  ACTIVE :: "bool option"
  PID :: "int option"
  ENABLED :: "bool option"
  RAW_STDOUT :: string
  RAW_STDERR :: string

text \<open>
  The instance: \<open>self.result\<close>, \<open>self._service_name\<close> (a string or \<open>None\<close>) and
  \<open>self._timeout\<close>.
\<close>

record SystemCtl =
  self_result :: result
  self_service_name :: "string option"
  self_timeout :: int

text \<open>
  What lies outside the object: the log of the calls of \<open>subprocess.run\<close> made so far (the
  argument list and the timeout of each) and the environment variables of the process.
  An element of an argument list is a string or \<open>None\<close>, since the source puts
  \<open>self._service_name\<close> there unchecked.
\<close>

type_synonym command = "string option list"

record world =
  calls :: "(command \<times> int) list"
  environ :: "string \<rightharpoonup> string"

text \<open>
  \<open>subprocess.run\<close> either returns a completed process (its two streams, decoded with
  \<open>errors="replace"\<close>, which never fails, and its return code), or raises
  \<open>TimeoutExpired\<close>, or raises another exception \<open>e\<close>, of which the source keeps
  \<open>str(e)\<close>. What it does is a parameter of the model: any function of the world, the
  argument list and the timeout.
\<close>

datatype outcome =
  CompletedProcess string string int
| TimeoutExpired
| OtherException string

type_synonym subprocess = "world \<Rightarrow> command \<Rightarrow> int \<Rightarrow> outcome"

text \<open>The two names of \<open>DEnviron\<close> (not among the sources) are a parameter.\<close>

record DEnviron =
  SYSTEMD_COLORS :: string
  SYSTEMD_PAGER :: string

text \<open>\<open>if x\<close> on a string or \<open>None\<close>: \<open>None\<close> and the empty string are false.\<close>

definition truthy :: "string option \<Rightarrow> bool" where
  "truthy x = (x \<noteq> None \<and> x \<noteq> Some [])"

definition set_raw :: "string \<Rightarrow> string \<Rightarrow> SystemCtl \<Rightarrow> SystemCtl" where
  "set_raw out err self =
     self\<lparr>self_result := (self_result self)\<lparr>RAW_STDOUT := out, RAW_STDERR := err\<rparr>\<rparr>"

definition stdout :: "SystemCtl \<Rightarrow> string" where
  "stdout self = RAW_STDOUT (self_result self)"

definition stderr :: "SystemCtl \<Rightarrow> string" where
  "stderr self = RAW_STDERR (self_result self)"

section \<open>\<open>_run_systemctl\<close> and \<open>_update_status\<close>\<close>

text \<open>
  The two methods call each other: \<open>_run_systemctl\<close> refreshes the status after
  \<open>enable\<close> and \<open>disable\<close>, and \<open>_update_status\<close> runs the \<open>status\<close> command.
  Each returns the value or the exception, the object and the world. When \<open>int\<close>
  raises in \<open>_update_status\<close>, the assignments made before it stay and pid is not
  assigned.
\<close>

function run_systemctl ::
    "subprocess \<Rightarrow> string \<Rightarrow> SystemCtl \<Rightarrow> world \<Rightarrow> (error + int) \<times> SystemCtl \<times> world"
  and update_status ::
    "subprocess \<Rightarrow> SystemCtl \<Rightarrow> world \<Rightarrow> (error + unit) \<times> SystemCtl \<times> world"
where
  "run_systemctl run arg self w =
     (let cmd = (if arg = DSystemCtl_STATUS
                 then [Some SYSTEMCTL, Some arg, self_service_name self]
                 else [Some SUDO, Some SYSTEMCTL, Some arg, self_service_name self]);
          w1 = w\<lparr>calls := calls w @ [(cmd, self_timeout self)]\<rparr>
      in case run w cmd (self_timeout self) of
           TimeoutExpired \<Rightarrow> (Inr ExitCode_ERROR, set_raw [] DMsg_TIMEOUT self, w1)
         | OtherException e \<Rightarrow> (Inr ExitCode_ERROR, set_raw [] e self, w1)
         | CompletedProcess out err returncode \<Rightarrow>
             (let self1 = set_raw out err self
              in if arg = DSystemCtl_ENABLE \<or> arg = DSystemCtl_DISABLE
                 then (case update_status run self1 w1 of
                         (Inl e, self2, w2) \<Rightarrow> (Inl e, self2, w2)
                       | (Inr u, self2, w2) \<Rightarrow> (Inr returncode, self2, w2))
                 else (Inr returncode, self1, w1)))"
| "update_status run self w =
     (if \<not> truthy (self_service_name self)
      then (Inl (ValueError DMsg_NO_SERVICE_NAME), self, w)
      else
        (case run_systemctl run DSystemCtl_STATUS self w of
           (Inl e, self1, w1) \<Rightarrow> (Inl e, self1, w1)
         | (Inr rc, self1, w1) \<Rightarrow>
             (let out = stdout self1; err = stderr self1
              in if py_in DMsg_NOT_FOUND err
                 then (Inr (),
                       self1\<lparr>self_result :=
                         (self_result self1)\<lparr>ACTIVE := None, PID := None, ENABLED := None\<rparr>\<rparr>,
                       w1)
                 else
                   (let r1 = self_result self1;
                        r2 = (if re_search re_active_running out \<noteq> None
                              then r1\<lparr>ACTIVE := Some True\<rparr>
                              else if re_search re_main_pid_exited out \<noteq> None
                              then r1\<lparr>ACTIVE := Some False\<rparr>
                              else if re_search re_inactive_dead out \<noteq> None
                              then r1\<lparr>ACTIVE := Some False\<rparr>
                              else r1);
                        r3 = (if re_search re_loaded_enabled out \<noteq> None
                              then r2\<lparr>ENABLED := Some True\<rparr>
                              else if re_search re_loaded_disabled out \<noteq> None
                              then r2\<lparr>ENABLED := Some False\<rparr>
                              else r2)
                    in (case re_search re_main_pid out of
                          Some pid_match \<Rightarrow>
                            if ACTIVE r3 = Some True
                            then (case py_int (group1 pid_match) of
                                    Inl e \<Rightarrow> (Inl e, self1\<lparr>self_result := r3\<rparr>, w1)
                                  | Inr n \<Rightarrow>
                                      (Inr (), self1\<lparr>self_result := r3\<lparr>PID := Some n\<rparr>\<rparr>, w1))
                            else (Inr (), self1\<lparr>self_result := r3\<rparr>, w1)
                        | None \<Rightarrow> (Inr (), self1\<lparr>self_result := r3\<rparr>, w1))))))"
  by pat_completeness auto
termination
  by (relation "measure (\<lambda>x. case x of
         Inl (run, arg, self, w) \<Rightarrow>
           (if arg = DSystemCtl_ENABLE \<or> arg = DSystemCtl_DISABLE then 2 else 0)
       | Inr (run, self, w) \<Rightarrow> 1)")
     (auto simp: DSystemCtl_STATUS_def DSystemCtl_ENABLE_def DSystemCtl_DISABLE_def)

declare run_systemctl.simps [simp del] update_status.simps [simp del]

section \<open>The public methods of \<open>SystemCtl\<close>\<close>

text \<open>
  \<open>__init__\<close> sets the two environment variables, builds the object and refreshes the
  status. When the refresh raises there is no object: the result is the exception.
\<close>

definition init ::
    "subprocess \<Rightarrow> DEnviron \<Rightarrow> string option \<Rightarrow> world \<Rightarrow> (error + SystemCtl) \<times> world" where
  "init run denv service_name w =
     (let w1 = w\<lparr>environ := (environ w)(SYSTEMD_COLORS denv \<mapsto> ''0'', SYSTEMD_PAGER denv \<mapsto> [])\<rparr>;
          self = \<lparr>self_result = \<lparr>ACTIVE = None, PID = None, ENABLED = None,
                                  RAW_STDOUT = [], RAW_STDERR = []\<rparr>,
                  self_service_name = service_name,
                  self_timeout = TIMEOUT\<rparr>
      in case update_status run self w1 of
           (Inl e, self1, w2) \<Rightarrow> (Inl e, w2)
         | (Inr u, self1, w2) \<Rightarrow> (Inr self1, w2))"

definition disable ::
    "subprocess \<Rightarrow> SystemCtl \<Rightarrow> world \<Rightarrow> (error + int) \<times> SystemCtl \<times> world" where
  "disable run self w =
     (if \<not> truthy (self_service_name self)
      then (Inl (ValueError DMsg_NO_SERVICE_NAME), self, w)
      else run_systemctl run DSystemCtl_DISABLE self w)"

definition enable ::
    "subprocess \<Rightarrow> SystemCtl \<Rightarrow> world \<Rightarrow> (error + int) \<times> SystemCtl \<times> world" where
  "enable run self w =
     (if \<not> truthy (self_service_name self)
      then (Inl (ValueError DMsg_NO_SERVICE_NAME), self, w)
      else run_systemctl run DSystemCtl_ENABLE self w)"

definition enabled :: "SystemCtl \<Rightarrow> bool option" where
  "enabled self = ENABLED (self_result self)"

definition installed :: "SystemCtl \<Rightarrow> bool" where
  "installed self = (stderr self = [])"

definition pid :: "SystemCtl \<Rightarrow> int option" where
  "pid self = PID (self_result self)"

definition restart ::
    "subprocess \<Rightarrow> SystemCtl \<Rightarrow> world \<Rightarrow> (error + int) \<times> SystemCtl \<times> world" where
  "restart run self w =
     (if \<not> truthy (self_service_name self)
      then (Inl (ValueError DMsg_NO_SERVICE_NAME), self, w)
      else run_systemctl run DSystemCtl_RESTART self w)"

definition running ::
    "subprocess \<Rightarrow> SystemCtl \<Rightarrow> world \<Rightarrow> (error + bool option) \<times> SystemCtl \<times> world" where
  "running run self w =
     (case update_status run self w of
        (Inl e, self1, w1) \<Rightarrow> (Inl e, self1, w1)
      | (Inr u, self1, w1) \<Rightarrow> (Inr (ACTIVE (self_result self1)), self1, w1))"

definition service_name ::
    "subprocess \<Rightarrow> string option \<Rightarrow> SystemCtl \<Rightarrow> world
       \<Rightarrow> (error + string option) \<times> SystemCtl \<times> world" where
  "service_name run name self w =
     (let old_service_name = self_service_name self
      in if truthy name
         then (let self1 = self\<lparr>self_service_name := name\<rparr>
               in if name \<noteq> old_service_name
                  then (case update_status run self1 w of
                          (Inl e, self2, w2) \<Rightarrow> (Inl e, self2, w2)
                        | (Inr u, self2, w2) \<Rightarrow> (Inr (self_service_name self2), self2, w2))
                  else (Inr (self_service_name self1), self1, w))
         else (Inr (self_service_name self), self, w))"

definition start ::
    "subprocess \<Rightarrow> SystemCtl \<Rightarrow> world \<Rightarrow> (error + int) \<times> SystemCtl \<times> world" where
  "start run self w =
     (if \<not> truthy (self_service_name self)
      then (Inl (ValueError DMsg_NO_SERVICE_NAME), self, w)
      else run_systemctl run DSystemCtl_START self w)"

definition stop ::
    "subprocess \<Rightarrow> SystemCtl \<Rightarrow> world \<Rightarrow> (error + int) \<times> SystemCtl \<times> world" where
  "stop run self w =
     (if \<not> truthy (self_service_name self)
      then (Inl (ValueError DMsg_NO_SERVICE_NAME), self, w)
      else run_systemctl run DSystemCtl_STOP self w)"

definition timeout :: "int option \<Rightarrow> SystemCtl \<Rightarrow> int \<times> SystemCtl" where
  "timeout t self =
     (let self1 = (case t of None \<Rightarrow> self | Some v \<Rightarrow> self\<lparr>self_timeout := v\<rparr>)
      in (self_timeout self1, self1))"

section \<open>Vocabulary of the statements\<close>

text \<open>
  \<open>command_line arg self\<close> is the argument list \<open>_run_systemctl\<close> builds for the
  subcommand \<open>arg\<close>, and \<open>logged arg self w\<close> is the world after that one call of
  \<open>subprocess.run\<close>.
\<close>

definition command_line :: "string \<Rightarrow> SystemCtl \<Rightarrow> command" where
  "command_line arg self =
     (if arg = DSystemCtl_STATUS
      then [Some SYSTEMCTL, Some arg, self_service_name self]
      else [Some SUDO, Some SYSTEMCTL, Some arg, self_service_name self])"

definition logged :: "string \<Rightarrow> SystemCtl \<Rightarrow> world \<Rightarrow> world" where
  "logged arg self w = w\<lparr>calls := calls w @ [(command_line arg self, self_timeout self)]\<rparr>"

text \<open>
  \<open>cleared self\<close> is the object with the three parsed fields unknown, the raw streams
  kept.
\<close>

definition cleared :: "SystemCtl \<Rightarrow> SystemCtl" where
  "cleared self =
     self\<lparr>self_result := (self_result self)\<lparr>ACTIVE := None, PID := None, ENABLED := None\<rparr>\<rparr>"

text \<open>
  A scripted external process for the concrete runs: the n-th call of \<open>subprocess.run\<close>
  gets the n-th outcome of the script, and times out once the script is used up.
\<close>

definition scripted :: "outcome list \<Rightarrow> subprocess" where
  "scripted script w cmd t =
     (case drop (length (calls w)) script of [] \<Rightarrow> TimeoutExpired | x # rest \<Rightarrow> x)"

definition world0 :: world where
  "world0 = \<lparr>calls = [], environ = Map.empty\<rparr>"

definition denv0 :: DEnviron where
  "denv0 = \<lparr>SYSTEMD_COLORS = ''SYSTEMD_COLORS'', SYSTEMD_PAGER = ''SYSTEMD_PAGER''\<rparr>"

text \<open>An object as \<open>__init__\<close> builds it, before the first refresh, and one with a past.\<close>

definition blank :: "string option \<Rightarrow> SystemCtl" where
  "blank name =
     \<lparr>self_result = \<lparr>ACTIVE = None, PID = None, ENABLED = None,
                      RAW_STDOUT = [], RAW_STDERR = []\<rparr>,
      self_service_name = name,
      self_timeout = TIMEOUT\<rparr>"

definition seasoned :: "string option \<Rightarrow> SystemCtl" where
  "seasoned name =
     \<lparr>self_result = \<lparr>ACTIVE = Some True, PID = Some 41, ENABLED = Some True,
                      RAW_STDOUT = ''old out'', RAW_STDERR = []\<rparr>,
      self_service_name = name,
      self_timeout = 3\<rparr>"

definition text_running :: string where
  "text_running = ''Active: active (running) since Mon\<newline>  Main PID: 1234 (nginx)''"

definition text_dead :: string where
  "text_dead = ''Active: inactive (dead)''"

text \<open>A report of a running service whose main PID has 4301 digits.\<close>

definition text_long_pid :: string where
  "text_long_pid = ''Active: active (running)\<newline>Main PID: '' @ replicate 4301 (CHR ''1'')"

text \<open>What a match may hold for each item of a pattern.\<close>

fun item_ok :: "item \<Rightarrow> string \<Rightarrow> bool" where
  "item_ok (Lit l) g = (g = l)"
| "item_ok (Star c) g = (\<forall>x \<in> set g. in_cls c x)"
| "item_ok (Plus c) g = (g \<noteq> [] \<and> (\<forall>x \<in> set g. in_cls c x))"

section \<open>What a match holds\<close>

text \<open>
  A match of a sequence of items is a list of pieces, one for each item and of the shape
  the item asks for, and the pieces, put together, are the start of the subject.
\<close>

lemma rmatch_sound:
  "rmatch p s = Some m \<Longrightarrow> list_all2 item_ok p m \<and> (\<exists>rest. s = concat m @ rest)"
proof (induction p s arbitrary: m rule: rmatch.induct)
  case (1 s)
  then show ?case by simp
next
  case (2 l r s)
  then show ?case
    by (auto split: if_splits) (metis append_take_drop_id)
next
  case (3 c r)
  then show ?case by auto
next
  case (4 c r x xs)
  then show ?case
    by (auto split: if_splits option.splits list.splits)
next
  case (5 c r)
  then show ?case by simp
next
  case (6 c r x xs)
  then show ?case
    by (auto split: if_splits option.splits list.splits)
qed

lemma search_from_sound:
  "search_from re bol s = Some m \<Longrightarrow> list_all2 item_ok (items re) m"
  by (induction re bol s rule: search_from.induct)
     (auto split: if_splits option.splits dest: rmatch_sound)

text \<open>So the group of a match of \<open>re_main_pid\<close> is a non-empty string of digits.\<close>

lemma main_pid_groups:
  assumes "re_search re_main_pid s = Some m"
  shows "group1 m \<noteq> [] \<and> (\<forall>x \<in> set (group1 m). in_cls Digit x)
       \<and> (\<exists>a b. m = [a, ''Main PID:'', b, group1 m])"
  using search_from_sound [of re_main_pid True s m] assms
  by (auto simp add: re_search_def re_main_pid_def group1_def list_all2_Cons1)

section \<open>How one command runs\<close>

lemma command_line_set_raw [simp]:
  "command_line arg (set_raw out err self) = command_line arg self"
  by (simp add: command_line_def set_raw_def)

lemma logged_set_raw [simp]:
  "logged arg (set_raw out err self) w = logged arg self w"
  by (simp add: logged_def command_line_def set_raw_def)

lemma set_raw_fields [simp]:
  "self_service_name (set_raw out err self) = self_service_name self"
  "self_timeout (set_raw out err self) = self_timeout self"
  "stdout (set_raw out err self) = out"
  "stderr (set_raw out err self) = err"
  "ACTIVE (self_result (set_raw out err self)) = ACTIVE (self_result self)"
  "PID (self_result (set_raw out err self)) = PID (self_result self)"
  "ENABLED (self_result (set_raw out err self)) = ENABLED (self_result self)"
  by (simp_all add: set_raw_def stdout_def stderr_def)


lemma run_systemctl_plain:
  assumes "arg \<noteq> DSystemCtl_ENABLE" and "arg \<noteq> DSystemCtl_DISABLE"
  shows "run_systemctl run arg self w =
     (case run w (command_line arg self) (self_timeout self) of
        TimeoutExpired \<Rightarrow> (Inr ExitCode_ERROR, set_raw [] DMsg_TIMEOUT self, logged arg self w)
      | OtherException e \<Rightarrow> (Inr ExitCode_ERROR, set_raw [] e self, logged arg self w)
      | CompletedProcess out err rc \<Rightarrow> (Inr rc, set_raw out err self, logged arg self w))"
  using assms
  by (simp add: run_systemctl.simps command_line_def logged_def Let_def split: outcome.splits)

lemma run_systemctl_refresh:
  assumes "arg = DSystemCtl_ENABLE \<or> arg = DSystemCtl_DISABLE"
  shows "run_systemctl run arg self w =
     (case run w (command_line arg self) (self_timeout self) of
        TimeoutExpired \<Rightarrow> (Inr ExitCode_ERROR, set_raw [] DMsg_TIMEOUT self, logged arg self w)
      | OtherException e \<Rightarrow> (Inr ExitCode_ERROR, set_raw [] e self, logged arg self w)
      | CompletedProcess out err rc \<Rightarrow>
          (case update_status run (set_raw out err self) (logged arg self w) of
             (Inl e, self2, w2) \<Rightarrow> (Inl e, self2, w2)
           | (Inr u, self2, w2) \<Rightarrow> (Inr rc, self2, w2)))"
  using assms
  by (auto simp add: run_systemctl.simps command_line_def logged_def Let_def split: outcome.splits)

lemma run_systemctl_refresh_value:
  assumes "arg = DSystemCtl_ENABLE \<or> arg = DSystemCtl_DISABLE"
  shows "run_systemctl run arg self w =
     (case run w (command_line arg self) (self_timeout self) of
        TimeoutExpired \<Rightarrow> (Inr ExitCode_ERROR, set_raw [] DMsg_TIMEOUT self, logged arg self w)
      | OtherException e \<Rightarrow> (Inr ExitCode_ERROR, set_raw [] e self, logged arg self w)
      | CompletedProcess out err rc \<Rightarrow>
          (case fst (update_status run (set_raw out err self) (logged arg self w)) of
             Inl x \<Rightarrow> Inl x
           | Inr u \<Rightarrow> Inr rc,
           snd (update_status run (set_raw out err self) (logged arg self w))))"
  by (simp add: run_systemctl_refresh [OF assms] split: outcome.splits prod.splits sum.splits)

lemma status_plain:
  "DSystemCtl_STATUS \<noteq> DSystemCtl_ENABLE" "DSystemCtl_STATUS \<noteq> DSystemCtl_DISABLE"
  by (simp_all add: DSystemCtl_STATUS_def DSystemCtl_ENABLE_def DSystemCtl_DISABLE_def)

lemma run_status_frame:
  assumes "run_systemctl run DSystemCtl_STATUS self w = (r, self1, w1)"
  shows "\<exists>rc. r = Inr rc"
    and "ACTIVE (self_result self1) = ACTIVE (self_result self)"
    and "PID (self_result self1) = PID (self_result self)"
    and "ENABLED (self_result self1) = ENABLED (self_result self)"
    and "self_service_name self1 = self_service_name self"
    and "self_timeout self1 = self_timeout self"
    and "w1 = logged DSystemCtl_STATUS self w"
  using assms
  by (auto simp add: run_systemctl_plain [OF status_plain] set_raw_def split: outcome.splits)

lemma run_status_streams:
  "stdout (fst (snd (run_systemctl run DSystemCtl_STATUS self w))) =
     (case run w (command_line DSystemCtl_STATUS self) (self_timeout self) of
        CompletedProcess out err rc \<Rightarrow> out | TimeoutExpired \<Rightarrow> [] | OtherException e \<Rightarrow> [])"
  "stderr (fst (snd (run_systemctl run DSystemCtl_STATUS self w))) =
     (case run w (command_line DSystemCtl_STATUS self) (self_timeout self) of
        CompletedProcess out err rc \<Rightarrow> err | TimeoutExpired \<Rightarrow> DMsg_TIMEOUT
      | OtherException e \<Rightarrow> e)"
  by (simp_all add: run_systemctl_plain [OF status_plain] set_raw_def stdout_def stderr_def
        split: outcome.splits)

section \<open>How one refresh runs\<close>

lemma update_status_no_name:
  "\<not> truthy (self_service_name self) \<Longrightarrow>
     update_status run self w = (Inl (ValueError DMsg_NO_SERVICE_NAME), self, w)"
  by (simp add: update_status.simps)

lemma update_status_not_found:
  assumes "truthy (self_service_name self)"
      and "run_systemctl run DSystemCtl_STATUS self w = (r, self1, w1)"
      and "py_in DMsg_NOT_FOUND (stderr self1)"
  shows "update_status run self w = (Inr (), cleared self1, w1)"
proof -
  obtain rc where r: "r = Inr rc"
    using run_status_frame(1) [OF assms(2)] by blast
  show ?thesis
    using assms r by (simp add: update_status.simps Let_def cleared_def)
qed

lemma update_status_active:
  assumes "truthy (self_service_name self)"
      and "run_systemctl run DSystemCtl_STATUS self w = (r, self1, w1)"
      and "\<not> py_in DMsg_NOT_FOUND (stderr self1)"
  shows "ACTIVE (self_result (fst (snd (update_status run self w)))) =
        (if re_search re_active_running (stdout self1) \<noteq> None then Some True
         else if re_search re_main_pid_exited (stdout self1) \<noteq> None then Some False
         else if re_search re_inactive_dead (stdout self1) \<noteq> None then Some False
         else ACTIVE (self_result self))"
proof -
  obtain rc where r: "r = Inr rc"
    using run_status_frame(1) [OF assms(2)] by blast
  show ?thesis
    using assms r run_status_frame(2) [OF assms(2)]
    by (simp add: update_status.simps Let_def del: not_None_eq
          split: option.split sum.split)
qed

lemma update_status_pid:
  assumes "truthy (self_service_name self)"
      and "run_systemctl run DSystemCtl_STATUS self w = (r, self1, w1)"
      and "\<not> py_in DMsg_NOT_FOUND (stderr self1)"
  shows "PID (self_result (fst (snd (update_status run self w)))) =
        (case re_search re_main_pid (stdout self1) of
           Some m \<Rightarrow>
             if ACTIVE (self_result (fst (snd (update_status run self w)))) = Some True
             then (case py_int (group1 m) of
                     Inl e \<Rightarrow> PID (self_result self)
                   | Inr n \<Rightarrow> Some n)
             else PID (self_result self)
         | None \<Rightarrow> PID (self_result self))"
proof -
  obtain rc where r: "r = Inr rc"
    using run_status_frame(1) [OF assms(2)] by blast
  show ?thesis
    using assms r run_status_frame(3) [OF assms(2)]
    by (simp add: update_status.simps Let_def del: not_None_eq
          split: option.split sum.split)
qed

lemma update_status_value:
  assumes "truthy (self_service_name self)"
      and "run_systemctl run DSystemCtl_STATUS self w = (r, self1, w1)"
      and "\<not> py_in DMsg_NOT_FOUND (stderr self1)"
  shows "fst (update_status run self w) =
        (case re_search re_main_pid (stdout self1) of
           Some m \<Rightarrow>
             if ACTIVE (self_result (fst (snd (update_status run self w)))) = Some True
             then (case py_int (group1 m) of
                     Inl e \<Rightarrow> Inl e
                   | Inr n \<Rightarrow> Inr ())
             else Inr ()
         | None \<Rightarrow> Inr ())"
proof -
  obtain rc where r: "r = Inr rc"
    using run_status_frame(1) [OF assms(2)] by blast
  show ?thesis
    using assms r
    by (simp add: update_status.simps Let_def del: not_None_eq
          split: option.split sum.split)
qed

lemma update_status_frame:
  assumes "truthy (self_service_name self)"
  shows "self_service_name (fst (snd (update_status run self w))) = self_service_name self"
    and "self_timeout (fst (snd (update_status run self w))) = self_timeout self"
    and "snd (snd (update_status run self w)) = logged DSystemCtl_STATUS self w"
    and "stdout (fst (snd (update_status run self w))) =
           stdout (fst (snd (run_systemctl run DSystemCtl_STATUS self w)))"
    and "stderr (fst (snd (update_status run self w))) =
           stderr (fst (snd (run_systemctl run DSystemCtl_STATUS self w)))"
proof -
  obtain r self1 w1 where run: "run_systemctl run DSystemCtl_STATUS self w = (r, self1, w1)"
    by (cases "run_systemctl run DSystemCtl_STATUS self w") auto
  obtain rc where r: "r = Inr rc"
    using run_status_frame(1) [OF run] by blast
  note fr = run_status_frame(5-7) [OF run]
  show "self_service_name (fst (snd (update_status run self w))) = self_service_name self"
    using assms run r fr
    by (simp add: update_status.simps Let_def del: not_None_eq split: option.split sum.split)
  show "self_timeout (fst (snd (update_status run self w))) = self_timeout self"
    using assms run r fr
    by (simp add: update_status.simps Let_def del: not_None_eq split: option.split sum.split)
  show "snd (snd (update_status run self w)) = logged DSystemCtl_STATUS self w"
    using assms run r fr
    by (simp add: update_status.simps Let_def del: not_None_eq split: option.split sum.split)
  show "stdout (fst (snd (update_status run self w))) =
           stdout (fst (snd (run_systemctl run DSystemCtl_STATUS self w)))"
    using assms run r
    by (simp add: update_status.simps Let_def stdout_def del: not_None_eq
          split: option.split sum.split)
  show "stderr (fst (snd (update_status run self w))) =
           stderr (fst (snd (run_systemctl run DSystemCtl_STATUS self w)))"
    using assms run r
    by (simp add: update_status.simps Let_def stderr_def del: not_None_eq
          split: option.split sum.split)
qed

text \<open>A refresh against a script of one completed process, and against an empty script.\<close>

lemma scripted_status_run:
  "run_systemctl (scripted [CompletedProcess out err rc]) DSystemCtl_STATUS self world0
     = (Inr rc, set_raw out err self, logged DSystemCtl_STATUS self world0)"
  by (simp add: run_systemctl_plain [OF status_plain] scripted_def world0_def)

lemma scripted_status_timeout:
  "run_systemctl (scripted []) DSystemCtl_STATUS self world0
     = (Inr ExitCode_ERROR, set_raw [] DMsg_TIMEOUT self, logged DSystemCtl_STATUS self world0)"
  by (simp add: run_systemctl_plain [OF status_plain] scripted_def world0_def)

section \<open>\<open>enable\<close> and \<open>disable\<close> as one command and one refresh\<close>

lemma enable_disable_run:
  assumes "truthy (self_service_name self)"
      and "(m = enable \<and> arg = DSystemCtl_ENABLE) \<or> (m = disable \<and> arg = DSystemCtl_DISABLE)"
  shows "m run self w =
     (case run w (command_line arg self) (self_timeout self) of
        TimeoutExpired \<Rightarrow> (Inr ExitCode_ERROR, set_raw [] DMsg_TIMEOUT self, logged arg self w)
      | OtherException e \<Rightarrow> (Inr ExitCode_ERROR, set_raw [] e self, logged arg self w)
      | CompletedProcess out err rc \<Rightarrow>
          (case fst (update_status run (set_raw out err self) (logged arg self w)) of
             Inl x \<Rightarrow> Inl x
           | Inr u \<Rightarrow> Inr rc,
           snd (update_status run (set_raw out err self) (logged arg self w))))"
proof -
  have arg: "arg = DSystemCtl_ENABLE \<or> arg = DSystemCtl_DISABLE"
    using assms(2) by blast
  have m: "m run self w = run_systemctl run arg self w"
    using assms by (auto simp add: enable_def disable_def)
  show ?thesis
    by (simp add: m run_systemctl_refresh [OF arg] split: outcome.splits prod.splits sum.splits)
qed

text \<open>A refresh returns when no main PID it reads has more than 4300 digits.\<close>

lemma update_status_short_pid:
  assumes "truthy (self_service_name self)"
      and "run_systemctl run DSystemCtl_STATUS self w = (r, self1, w1)"
      and "\<not> py_in DMsg_NOT_FOUND (stderr self1)"
      and "case re_search re_main_pid (stdout self1) of
             None \<Rightarrow> True | Some m \<Rightarrow> length (group1 m) \<le> 4300"
  shows "fst (update_status run self w) = Inr ()"
proof (cases "re_search re_main_pid (stdout self1)")
  case None
  then show ?thesis
    using update_status_value [OF assms(1-3)] by simp
next
  case (Some m)
  then have "length (group1 m) \<le> 4300"
    using assms(4) by simp
  then show ?thesis
    using update_status_value [OF assms(1-3)] Some
    by (simp add: py_int_def int_max_str_digits_def)
qed

text \<open>A refresh whose status query times out returns.\<close>

lemma update_status_timeout_value:
  assumes "truthy (self_service_name self)"
      and "run w (command_line DSystemCtl_STATUS self) (self_timeout self) = TimeoutExpired"
  shows "fst (update_status run self w) = Inr ()"
proof -
  have run: "run_systemctl run DSystemCtl_STATUS self w
      = (Inr ExitCode_ERROR, set_raw [] DMsg_TIMEOUT self, logged DSystemCtl_STATUS self w)"
    using assms(2) by (simp add: run_systemctl_plain [OF status_plain])
  have nf: "\<not> py_in DMsg_NOT_FOUND (stderr (set_raw [] DMsg_TIMEOUT self))"
    by (simp add: DMsg_NOT_FOUND_def DMsg_TIMEOUT_def)
  show ?thesis
    using update_status_value [OF assms(1) run nf]
    by (simp add: re_search_def re_main_pid_def)
qed

section \<open>A main PID of more digits than \<open>int\<close> converts\<close>

lemma rmatch_star_run:
  "in_cls c d \<Longrightarrow> rmatch [Star c] (replicate n d) = Some [replicate n d]"
  by (induction n) simp_all

lemma long_pid_search:
  assumes "0 < n"
  shows "re_search re_main_pid
           (''Active: active (running)\<newline>Main PID: '' @ replicate n (CHR ''1''))
         = Some [[], ''Main PID:'', '' '', replicate n (CHR ''1'')]"
proof -
  obtain k where n: "n = Suc k"
    using assms by (cases n) auto
  have "rmatch [Star Digit] (replicate k (CHR ''1'')) = Some [replicate k (CHR ''1'')]"
    by (rule rmatch_star_run) simp
  then show ?thesis
    by (simp add: n re_search_def re_main_pid_def)
qed

lemma long_pid_active:
  "re_search re_active_running (''Active: active (running)\<newline>Main PID: '' @ ds) \<noteq> None"
  by (simp add: re_search_def re_active_running_def)

lemma long_pid_refresh:
  assumes "truthy (self_service_name self)"
      and "run w (command_line DSystemCtl_STATUS self) (self_timeout self)
             = CompletedProcess text_long_pid [] rc"
  shows "fst (update_status run self w) = Inl (ValueError_int_max_str_digits 4301)"
    and "ACTIVE (self_result (fst (snd (update_status run self w)))) = Some True"
    and "PID (self_result (fst (snd (update_status run self w)))) = PID (self_result self)"
    and "stdout (fst (snd (update_status run self w))) = text_long_pid"
proof -
  have run: "run_systemctl run DSystemCtl_STATUS self w
      = (Inr rc, set_raw text_long_pid [] self, logged DSystemCtl_STATUS self w)"
    using assms(2) by (simp add: run_systemctl_plain [OF status_plain])
  have nf: "\<not> py_in DMsg_NOT_FOUND (stderr (set_raw text_long_pid [] self))"
    by (simp add: DMsg_NOT_FOUND_def)
  have pid: "re_search re_main_pid text_long_pid
               = Some [[], ''Main PID:'', '' '', replicate 4301 (CHR ''1'')]"
    using long_pid_search [of 4301] by (simp add: text_long_pid_def)
  have int: "py_int (group1 [[], ''Main PID:'', '' '', replicate 4301 (CHR ''1'')])
               = Inl (ValueError_int_max_str_digits 4301)"
    by (simp add: py_int_def group1_def int_max_str_digits_def)
  show a: "ACTIVE (self_result (fst (snd (update_status run self w)))) = Some True"
    using update_status_active [OF assms(1) run nf]
          long_pid_active [of "replicate 4301 (CHR ''1'')"]
    by (simp add: text_long_pid_def)
  show "fst (update_status run self w) = Inl (ValueError_int_max_str_digits 4301)"
    using update_status_value [OF assms(1) run nf] by (simp add: a pid int)
  show "PID (self_result (fst (snd (update_status run self w)))) = PID (self_result self)"
    using update_status_pid [OF assms(1) run nf] by (simp add: a pid int)
  show "stdout (fst (snd (update_status run self w))) = text_long_pid"
    using update_status_frame(4) [OF assms(1), of run w] run by simp
qed

text \<open>
  So \<open>enable\<close> or \<open>disable\<close> whose process completes and whose status query reports such
  a PID raises.
\<close>

lemma long_pid_follow_up:
  assumes "truthy (self_service_name self)"
      and "arg = DSystemCtl_ENABLE \<or> arg = DSystemCtl_DISABLE"
  shows "fst (run_systemctl
                (scripted [CompletedProcess out [] rc, CompletedProcess text_long_pid [] rc2])
                arg self world0)
           = Inl (ValueError_int_max_str_digits 4301)"
    and "stdout (fst (snd (run_systemctl
                (scripted [CompletedProcess out [] rc, CompletedProcess text_long_pid [] rc2])
                arg self world0)))
           = text_long_pid"
proof -
  let ?run = "scripted [CompletedProcess out [] rc, CompletedProcess text_long_pid [] rc2]"
  have first: "?run world0 (command_line arg self) (self_timeout self)
                 = CompletedProcess out [] rc"
    by (simp add: scripted_def world0_def)
  have name: "truthy (self_service_name (set_raw out [] self))"
    using assms(1) by simp
  have second: "?run (logged arg self world0)
                  (command_line DSystemCtl_STATUS (set_raw out [] self))
                  (self_timeout (set_raw out [] self))
                = CompletedProcess text_long_pid [] rc2"
    by (simp add: scripted_def world0_def logged_def)
  note l = long_pid_refresh(1,4) [where run = ?run and w = "logged arg self world0"
             and self = "set_raw out [] self" and rc = rc2, OF name second]
  show "fst (run_systemctl ?run arg self world0) = Inl (ValueError_int_max_str_digits 4301)"
    by (simp add: run_systemctl_refresh_value [OF assms(2)] first l)
  show "stdout (fst (snd (run_systemctl ?run arg self world0))) = text_long_pid"
    by (simp add: run_systemctl_refresh_value [OF assms(2)] first l)
qed

section \<open>\<open>service_name\<close> with a new name as one assignment and one refresh\<close>

lemma service_name_refresh:
  assumes "truthy name"
      and "name \<noteq> self_service_name self"
  shows "service_name run name self w
           = (case fst (update_status run (self\<lparr>self_service_name := name\<rparr>) w) of
                Inl x \<Rightarrow> Inl x
              | Inr u \<Rightarrow> Inr name,
              snd (update_status run (self\<lparr>self_service_name := name\<rparr>) w))"
proof -
  let ?s = "self\<lparr>self_service_name := name\<rparr>"
  have t: "truthy (self_service_name ?s)"
    using assms(1) by simp
  obtain r self2 w2 where u: "update_status run ?s w = (r, self2, w2)"
    by (cases "update_status run ?s w") auto
  show ?thesis
    using assms u update_status_frame(1) [OF t, where run = run and w = w]
    by (simp add: service_name_def Let_def split: sum.splits)
qed

section \<open>The unit that could not be found\<close>

text \<open>
  Claim C1. Whenever the standard error captured by the status query of a refresh contains
  "could not be found", the refresh ends with active, pid and enabled all unknown and the
  two raw streams as captured, whatever the standard output holds; \<open>running()\<close> then
  returns unknown, and so do \<open>enabled()\<close> and \<open>pid()\<close> on the object it leaves.
\<close>

theorem not_found_short_circuit:
  assumes "truthy (self_service_name self)"
      and "run_systemctl run DSystemCtl_STATUS self w = (r, self1, w1)"
      and "py_in DMsg_NOT_FOUND (stderr self1)"
  shows "update_status run self w = (Inr (), cleared self1, w1)
       \<and> running run self w = (Inr None, cleared self1, w1)
       \<and> ACTIVE (self_result (cleared self1)) = None
       \<and> enabled (cleared self1) = None
       \<and> pid (cleared self1) = None
       \<and> stdout (cleared self1) = stdout self1
       \<and> stderr (cleared self1) = stderr self1"
  using update_status_not_found [OF assms]
  by (simp add: running_def enabled_def pid_def cleared_def stdout_def stderr_def)

text \<open>
  A run of it: the standard output reports a running service with a main PID, the object
  remembers an active, enabled service with a PID, and all three become unknown.
\<close>

theorem not_found_short_circuit_witness:
  "running (scripted [CompletedProcess text_running ''Unit ghost.service could not be found.'' 4])
     (seasoned (Some ''ghost'')) world0
   = (Inr None,
      \<lparr>self_result = \<lparr>ACTIVE = None, PID = None, ENABLED = None,
                       RAW_STDOUT = text_running,
                       RAW_STDERR = ''Unit ghost.service could not be found.''\<rparr>,
       self_service_name = Some ''ghost'', self_timeout = 3\<rparr>,
      \<lparr>calls = [([Some ''systemctl'', Some ''status'', Some ''ghost''], 3)], environ = Map.empty\<rparr>)"
proof -
  let ?run = "scripted [CompletedProcess text_running ''Unit ghost.service could not be found.'' 4]"
  have name: "truthy (self_service_name (seasoned (Some ''ghost'')))"
    by (simp add: truthy_def seasoned_def)
  have run: "run_systemctl ?run DSystemCtl_STATUS (seasoned (Some ''ghost'')) world0
      = (Inr 4, set_raw text_running ''Unit ghost.service could not be found.'' (seasoned (Some ''ghost'')),
         logged DSystemCtl_STATUS (seasoned (Some ''ghost'')) world0)"
    by (simp add: run_systemctl_plain [OF status_plain] scripted_def world0_def)
  have nf: "py_in DMsg_NOT_FOUND
      (stderr (set_raw text_running ''Unit ghost.service could not be found.'' (seasoned (Some ''ghost''))))"
    by (simp add: DMsg_NOT_FOUND_def stderr_def set_raw_def)
  show ?thesis
    using not_found_short_circuit [OF name run nf]
    by (simp add: cleared_def set_raw_def seasoned_def logged_def command_line_def world0_def
        DSystemCtl_STATUS_def SYSTEMCTL_def)
qed

section \<open>Commands on an object without a name\<close>

text \<open>
  Claim C8. With no service name set (\<open>None\<close> or the empty string), each of \<open>start\<close>,
  \<open>stop\<close>, \<open>restart\<close>, \<open>enable\<close> and \<open>disable\<close> raises the \<open>ValueError\<close> with the
  message of \<open>DMsg.NO_SERVICE_NAME\<close>; the object and the world, the log of external calls
  included, are what they were.
\<close>

theorem no_name_no_action:
  assumes "\<not> truthy (self_service_name self)"
  shows "start run self w = (Inl (ValueError DMsg_NO_SERVICE_NAME), self, w)
       \<and> stop run self w = (Inl (ValueError DMsg_NO_SERVICE_NAME), self, w)
       \<and> restart run self w = (Inl (ValueError DMsg_NO_SERVICE_NAME), self, w)
       \<and> enable run self w = (Inl (ValueError DMsg_NO_SERVICE_NAME), self, w)
       \<and> disable run self w = (Inl (ValueError DMsg_NO_SERVICE_NAME), self, w)"
  using assms by (simp add: start_def stop_def restart_def enable_def disable_def)

text \<open>Two runs of it, one for each way of having no name.\<close>

theorem no_name_no_action_witness:
  "start (scripted []) (seasoned None) world0
     = (Inl (ValueError ''service name not specified''), seasoned None, world0)
   \<and> enable (scripted []) (seasoned (Some [])) world0
     = (Inl (ValueError ''service name not specified''), seasoned (Some []), world0)"
  using no_name_no_action [of "seasoned None" "scripted []" world0]
        no_name_no_action [of "seasoned (Some [])" "scripted []" world0]
  by (simp add: truthy_def seasoned_def DMsg_NO_SERVICE_NAME_def)

section \<open>The name accessor\<close>

text \<open>
  Claim C9. \<open>service_name\<close> called with the current name, or with \<open>None\<close> or the empty
  string, returns the current name and changes nothing: the object, its status record and
  the log of external calls stay as they were, so there is no refresh.
\<close>

theorem same_or_empty_name_is_noop:
  assumes "name = self_service_name self \<or> \<not> truthy name"
  shows "service_name run name self w = (Inr (self_service_name self), self, w)"
  using assms by (auto simp add: service_name_def Let_def)

text \<open>Runs of it with the same name, with no argument and with the empty string.\<close>

theorem same_or_empty_name_is_noop_witness:
  "service_name (scripted []) (Some ''nginx'') (seasoned (Some ''nginx'')) world0
     = (Inr (Some ''nginx''), seasoned (Some ''nginx''), world0)
   \<and> service_name (scripted []) None (seasoned (Some ''nginx'')) world0
     = (Inr (Some ''nginx''), seasoned (Some ''nginx''), world0)
   \<and> service_name (scripted []) (Some []) (seasoned (Some ''nginx'')) world0
     = (Inr (Some ''nginx''), seasoned (Some ''nginx''), world0)"
  using same_or_empty_name_is_noop [of "Some ''nginx''" "seasoned (Some ''nginx'')" "scripted []" world0]
        same_or_empty_name_is_noop [of None "seasoned (Some ''nginx'')" "scripted []" world0]
        same_or_empty_name_is_noop [of "Some []" "seasoned (Some ''nginx'')" "scripted []" world0]
  by (simp add: truthy_def seasoned_def)

section \<open>Construction\<close>

text \<open>
  Claim C4. The claim says that construction without a service name succeeds. In the
  source \<open>__init__\<close> calls \<open>_update_status\<close> unconditionally, so with the default
  \<open>service_name=None\<close> the constructor itself raises the \<open>ValueError\<close>, after it has
  set the two environment variables, and no external command is run.
\<close>

theorem init_without_name_raises:
  "init run denv None w =
     (Inl (ValueError DMsg_NO_SERVICE_NAME),
      w\<lparr>environ := (environ w)(SYSTEMD_COLORS denv \<mapsto> ''0'', SYSTEMD_PAGER denv \<mapsto> [])\<rparr>)"
  by (simp add: init_def Let_def update_status_no_name truthy_def)

section \<open>The parsing of a status report\<close>

text \<open>
  Claim C5. In a refresh whose captured standard error does not contain "could not be
  found", the active field is decided by one chain of three alternatives, the first that
  matches winning: the pattern for "active (running)" gives true, else the pattern for
  "Main PID: ... (code=exited)" gives false, else the pattern for "inactive (dead)" gives
  false, and when none matches the field keeps the value it had before the refresh.
\<close>

theorem active_branch_priority:
  assumes "truthy (self_service_name self)"
      and "run_systemctl run DSystemCtl_STATUS self w = (r, self1, w1)"
      and "\<not> py_in DMsg_NOT_FOUND (stderr self1)"
  shows "ACTIVE (self_result (fst (snd (update_status run self w)))) =
        (if re_search re_active_running (stdout self1) \<noteq> None then Some True
         else if re_search re_main_pid_exited (stdout self1) \<noteq> None then Some False
         else if re_search re_inactive_dead (stdout self1) \<noteq> None then Some False
         else ACTIVE (self_result self))"
  using update_status_active [OF assms] .

text \<open>
  Runs of it: a report with both an "inactive (dead)" and an "active (running)" line is
  active; a report with no known line keeps the old value; a dead report is inactive.
\<close>

theorem active_branch_priority_witness:
  "ACTIVE (self_result (fst (snd (update_status
      (scripted [CompletedProcess ''Active: inactive (dead)\<newline>  Active:   active (running)'' [] 0])
      (blank (Some ''nginx'')) world0)))) = Some True
   \<and> ACTIVE (self_result (fst (snd (update_status
      (scripted [CompletedProcess ''no news'' [] 0])
      (seasoned (Some ''nginx'')) world0)))) = Some True
   \<and> ACTIVE (self_result (fst (snd (update_status
      (scripted [CompletedProcess text_dead [] 3])
      (seasoned (Some ''nginx'')) world0)))) = Some False"
proof -
  have name: "truthy (self_service_name (blank (Some ''nginx'')))"
             "truthy (self_service_name (seasoned (Some ''nginx'')))"
    by (simp_all add: truthy_def blank_def seasoned_def)
  have nf: "\<not> py_in DMsg_NOT_FOUND (stderr (set_raw out [] self))" for out self
    by (simp add: DMsg_NOT_FOUND_def stderr_def set_raw_def)
  show ?thesis
    using active_branch_priority [OF name(1) scripted_status_run nf]
          active_branch_priority [OF name(2) scripted_status_run nf, of "''no news''" 0]
          active_branch_priority [OF name(2) scripted_status_run nf, of text_dead 3]
    by (simp add: stdout_def set_raw_def seasoned_def text_dead_def re_search_def
          re_active_running_def re_main_pid_exited_def re_inactive_dead_def)
qed

text \<open>
  Claim C6, as the claim states it, fails: the report names a main PID of 4301 digits on a
  line that matches the pattern, and active is true, yet the pid field keeps its old value
  41, because \<open>int\<close> raises the \<open>ValueError\<close> and the refresh ends with it.
\<close>

theorem pid_assignment_counterexample:
  "re_search re_main_pid text_long_pid \<noteq> None
   \<and> ACTIVE (self_result (fst (snd (update_status
         (scripted [CompletedProcess text_long_pid [] 0]) (seasoned (Some ''nginx'')) world0))))
       = Some True
   \<and> PID (self_result (fst (snd (update_status
         (scripted [CompletedProcess text_long_pid [] 0]) (seasoned (Some ''nginx'')) world0))))
       = Some 41
   \<and> fst (update_status
         (scripted [CompletedProcess text_long_pid [] 0]) (seasoned (Some ''nginx'')) world0)
       = Inl (ValueError_int_max_str_digits 4301)"
proof -
  have name: "truthy (self_service_name (seasoned (Some ''nginx'')))"
    by (simp add: truthy_def seasoned_def)
  have "re_search re_main_pid text_long_pid \<noteq> None"
    using long_pid_search [of 4301] by (simp add: text_long_pid_def)
  moreover have "scripted [CompletedProcess text_long_pid [] 0] world0
        (command_line DSystemCtl_STATUS (seasoned (Some ''nginx'')))
        (self_timeout (seasoned (Some ''nginx''))) = CompletedProcess text_long_pid [] 0"
    by (simp add: scripted_def world0_def)
  ultimately show ?thesis
    using long_pid_refresh(1-3) [where run = "scripted [CompletedProcess text_long_pid [] 0]"
            and w = world0 and rc = 0, OF name]
    by (simp add: seasoned_def)
qed

text \<open>
  Claim C6, amended. In a refresh whose captured standard error does not contain "could not
  be found", the pid field becomes the integer of the group of \<open>Main PID:\s+(\d+)\<close>
  exactly when that pattern matches the standard output, the active field is true once the
  refresh has decided it, and \<open>int\<close> converts the digits (at most 4300 of them); when the
  pattern matches and active is true but \<open>int\<close> rejects the digits, the refresh raises
  that \<open>ValueError\<close> and the pid field keeps its value; in every other case the refresh
  returns and the pid field keeps the value it had before the refresh.
\<close>

theorem pid_assignment:
  assumes "truthy (self_service_name self)"
      and "run_systemctl run DSystemCtl_STATUS self w = (r, self1, w1)"
      and "\<not> py_in DMsg_NOT_FOUND (stderr self1)"
  shows "PID (self_result (fst (snd (update_status run self w)))) =
        (case re_search re_main_pid (stdout self1) of
           Some m \<Rightarrow>
             if ACTIVE (self_result (fst (snd (update_status run self w)))) = Some True
             then (if length (group1 m) \<le> 4300
                   then Some (foldl (\<lambda>a d. 10 * a + (int (of_char d) - 48)) 0 (group1 m))
                   else PID (self_result self))
             else PID (self_result self)
         | None \<Rightarrow> PID (self_result self))
       \<and> fst (update_status run self w) =
        (case re_search re_main_pid (stdout self1) of
           Some m \<Rightarrow>
             if ACTIVE (self_result (fst (snd (update_status run self w)))) = Some True
                \<and> 4300 < length (group1 m)
             then Inl (ValueError_int_max_str_digits (length (group1 m)))
             else Inr ()
         | None \<Rightarrow> Inr ())"
  using update_status_pid [OF assms] update_status_value [OF assms]
  by (simp add: py_int_def int_max_str_digits_def split: option.splits)

text \<open>
  Runs of it on an object that remembers the PID 41: a running report gives 1234, and the
  report of a stopped service, which still names a main PID, leaves 41; both refreshes
  return.
\<close>

theorem pid_assignment_witness:
  "PID (self_result (fst (snd (update_status
      (scripted [CompletedProcess text_running [] 0])
      (seasoned (Some ''nginx'')) world0)))) = Some 1234
   \<and> fst (update_status (scripted [CompletedProcess text_running [] 0])
      (seasoned (Some ''nginx'')) world0) = Inr ()
   \<and> PID (self_result (fst (snd (update_status
      (scripted [CompletedProcess ''Active: inactive (dead)\<newline> Main PID: 1234 (code=exited)'' [] 3])
      (seasoned (Some ''nginx'')) world0)))) = Some 41
   \<and> fst (update_status
      (scripted [CompletedProcess ''Active: inactive (dead)\<newline> Main PID: 1234 (code=exited)'' [] 3])
      (seasoned (Some ''nginx'')) world0) = Inr ()"
proof -
  have name: "truthy (self_service_name (seasoned (Some ''nginx'')))"
    by (simp_all add: truthy_def seasoned_def)
  have nf: "\<not> py_in DMsg_NOT_FOUND (stderr (set_raw out [] self))" for out self
    by (simp add: DMsg_NOT_FOUND_def stderr_def set_raw_def)
  have a1: "ACTIVE (self_result (fst (snd (update_status
      (scripted [CompletedProcess text_running [] 0])
      (seasoned (Some ''nginx'')) world0)))) = Some True"
    using update_status_active [OF name scripted_status_run nf, of text_running 0]
    by (simp add: stdout_def set_raw_def text_running_def re_search_def re_active_running_def)
  have a2: "ACTIVE (self_result (fst (snd (update_status
      (scripted [CompletedProcess ''Active: inactive (dead)\<newline> Main PID: 1234 (code=exited)'' [] 3])
      (seasoned (Some ''nginx'')) world0)))) = Some False"
    using update_status_active [OF name scripted_status_run nf,
            of "''Active: inactive (dead)\<newline> Main PID: 1234 (code=exited)''" 3]
    by (simp add: stdout_def set_raw_def re_search_def
          re_active_running_def re_main_pid_exited_def)
  show ?thesis
    using pid_assignment [OF name scripted_status_run nf, of text_running 0]
          pid_assignment [OF name scripted_status_run nf,
            of "''Active: inactive (dead)\<newline> Main PID: 1234 (code=exited)''" 3]
          a1 a2
    by (simp add: stdout_def set_raw_def seasoned_def text_running_def re_search_def
          re_main_pid_def group1_def)
qed

section \<open>The execution of one command\<close>

text \<open>
  Claim C7, as the claim states it, fails: the process of \<open>enable\<close> completes with return
  code 0 and standard output "Created symlink", yet the call does not return 0 and the
  stored standard output is not that text. The follow-up refresh has replaced the streams by
  those of the status query, and \<open>int\<close> has raised on its main PID of 4301 digits.
\<close>

theorem run_systemctl_enable_counterexample:
  "scripted [CompletedProcess ''Created symlink'' [] 0, CompletedProcess text_long_pid [] 0]
       world0 (command_line DSystemCtl_ENABLE (seasoned (Some ''nginx'')))
       (self_timeout (seasoned (Some ''nginx'')))
     = CompletedProcess ''Created symlink'' [] 0
   \<and> fst (run_systemctl
         (scripted [CompletedProcess ''Created symlink'' [] 0, CompletedProcess text_long_pid [] 0])
         DSystemCtl_ENABLE (seasoned (Some ''nginx'')) world0)
       = Inl (ValueError_int_max_str_digits 4301)
   \<and> RAW_STDOUT (self_result (fst (snd (run_systemctl
         (scripted [CompletedProcess ''Created symlink'' [] 0, CompletedProcess text_long_pid [] 0])
         DSystemCtl_ENABLE (seasoned (Some ''nginx'')) world0))))
       = text_long_pid
   \<and> text_long_pid \<noteq> ''Created symlink''"
proof -
  have name: "truthy (self_service_name (seasoned (Some ''nginx'')))"
    by (simp add: truthy_def seasoned_def)
  have ne: "text_long_pid \<noteq> ''Created symlink''"
    by (simp add: text_long_pid_def)
  show ?thesis
    using long_pid_follow_up [OF name, of DSystemCtl_ENABLE "''Created symlink''" 0 0] ne
    by (simp add: stdout_def scripted_def world0_def)
qed

text \<open>
  Claim C7, amended. When the external process times out, \<open>_run_systemctl\<close> stores an
  empty standard output and the fixed message of \<open>DMsg.TIMEOUT\<close> and returns 5; when
  running it fails with any other exception it stores an empty standard output and the text
  of the exception and returns 5. When the process completes, every subcommand but
  \<open>enable\<close> and \<open>disable\<close> stores the two decoded streams as they are and returns the
  return code of the process. \<open>enable\<close> and \<open>disable\<close> store the two streams and then run
  the status refresh from the object that holds them; with a name set, the stored streams
  end as the ones the status query left, and the call returns the return code of the
  process when that refresh returns and raises the exception of the refresh when it raises.
\<close>

theorem run_systemctl_outcomes:
  "(run w (command_line arg self) (self_timeout self) = TimeoutExpired \<longrightarrow>
      run_systemctl run arg self w
        = (Inr 5,
           self\<lparr>self_result :=
             (self_result self)\<lparr>RAW_STDOUT := [], RAW_STDERR := ''systemctl timed out''\<rparr>\<rparr>,
           logged arg self w))
   \<and> (run w (command_line arg self) (self_timeout self) = OtherException e \<longrightarrow>
      run_systemctl run arg self w
        = (Inr 5,
           self\<lparr>self_result := (self_result self)\<lparr>RAW_STDOUT := [], RAW_STDERR := e\<rparr>\<rparr>,
           logged arg self w))
   \<and> (run w (command_line arg self) (self_timeout self) = CompletedProcess out err rc \<longrightarrow>
        (arg \<noteq> DSystemCtl_ENABLE \<and> arg \<noteq> DSystemCtl_DISABLE \<longrightarrow>
           run_systemctl run arg self w
             = (Inr rc,
                self\<lparr>self_result := (self_result self)\<lparr>RAW_STDOUT := out, RAW_STDERR := err\<rparr>\<rparr>,
                logged arg self w))
      \<and> (arg = DSystemCtl_ENABLE \<or> arg = DSystemCtl_DISABLE \<longrightarrow>
           run_systemctl run arg self w
             = (case fst (update_status run
                            (self\<lparr>self_result :=
                               (self_result self)\<lparr>RAW_STDOUT := out, RAW_STDERR := err\<rparr>\<rparr>)
                            (logged arg self w)) of
                  Inl x \<Rightarrow> Inl x
                | Inr u \<Rightarrow> Inr rc,
                snd (update_status run
                       (self\<lparr>self_result :=
                          (self_result self)\<lparr>RAW_STDOUT := out, RAW_STDERR := err\<rparr>\<rparr>)
                       (logged arg self w))))
      \<and> ((arg = DSystemCtl_ENABLE \<or> arg = DSystemCtl_DISABLE)
           \<and> truthy (self_service_name self) \<longrightarrow>
           RAW_STDOUT (self_result (fst (snd (run_systemctl run arg self w)))) =
             (case run (logged arg self w) (command_line DSystemCtl_STATUS self)
                     (self_timeout self) of
                CompletedProcess out2 err2 rc2 \<Rightarrow> out2
              | TimeoutExpired \<Rightarrow> []
              | OtherException x \<Rightarrow> [])
         \<and> RAW_STDERR (self_result (fst (snd (run_systemctl run arg self w)))) =
             (case run (logged arg self w) (command_line DSystemCtl_STATUS self)
                     (self_timeout self) of
                CompletedProcess out2 err2 rc2 \<Rightarrow> err2
              | TimeoutExpired \<Rightarrow> ''systemctl timed out''
              | OtherException x \<Rightarrow> x)))"
proof (cases "arg = DSystemCtl_ENABLE \<or> arg = DSystemCtl_DISABLE")
  case True
  have streams: "stdout (fst (snd (update_status run (set_raw out err self) (logged arg self w))))
        = (case run (logged arg self w) (command_line DSystemCtl_STATUS self) (self_timeout self) of
             CompletedProcess out2 err2 rc2 \<Rightarrow> out2 | TimeoutExpired \<Rightarrow> []
           | OtherException x \<Rightarrow> [])
      \<and> stderr (fst (snd (update_status run (set_raw out err self) (logged arg self w))))
        = (case run (logged arg self w) (command_line DSystemCtl_STATUS self) (self_timeout self) of
             CompletedProcess out2 err2 rc2 \<Rightarrow> err2 | TimeoutExpired \<Rightarrow> DMsg_TIMEOUT
           | OtherException x \<Rightarrow> x)"
    if "truthy (self_service_name self)"
    using update_status_frame(4,5) [where self = "set_raw out err self" and run = run
            and w = "logged arg self w"] that
    by (simp add: run_status_streams)
  have raw: "set_raw out err self
      = self\<lparr>self_result := (self_result self)\<lparr>RAW_STDOUT := out, RAW_STDERR := err\<rparr>\<rparr>"
    for out err
    by (simp add: set_raw_def)
  show ?thesis
  proof (cases "run w (command_line arg self) (self_timeout self)")
    case (CompletedProcess out' err' rc')
    then show ?thesis
      using True streams
      by (auto simp add: run_systemctl_refresh_value [OF True] DMsg_TIMEOUT_def
            stdout_def stderr_def raw [symmetric] split: outcome.splits)
  next
    case TimeoutExpired
    then show ?thesis
      by (simp add: run_systemctl_refresh_value [OF True] ExitCode_ERROR_def DMsg_TIMEOUT_def raw)
  next
    case (OtherException x)
    then show ?thesis
      by (simp add: run_systemctl_refresh_value [OF True] ExitCode_ERROR_def raw)
  qed
next
  case False
  then show ?thesis
    by (simp add: run_systemctl_plain ExitCode_ERROR_def DMsg_TIMEOUT_def set_raw_def)
qed

text \<open>
  Runs of it: a timeout, a failure to spawn, a completed restart, and a completed enable
  whose status query times out.
\<close>

theorem run_systemctl_outcomes_witness:
  "run_systemctl (scripted []) DSystemCtl_START (seasoned (Some ''nginx'')) world0
     = (Inr 5,
        \<lparr>self_result = \<lparr>ACTIVE = Some True, PID = Some 41, ENABLED = Some True,
                         RAW_STDOUT = [], RAW_STDERR = ''systemctl timed out''\<rparr>,
         self_service_name = Some ''nginx'', self_timeout = 3\<rparr>,
        \<lparr>calls = [([Some ''sudo'', Some ''systemctl'', Some ''start'', Some ''nginx''], 3)],
         environ = Map.empty\<rparr>)
   \<and> run_systemctl (scripted [OtherException ''No such file or directory'']) DSystemCtl_STOP
       (seasoned (Some ''nginx'')) world0
     = (Inr 5,
        \<lparr>self_result = \<lparr>ACTIVE = Some True, PID = Some 41, ENABLED = Some True,
                         RAW_STDOUT = [], RAW_STDERR = ''No such file or directory''\<rparr>,
         self_service_name = Some ''nginx'', self_timeout = 3\<rparr>,
        \<lparr>calls = [([Some ''sudo'', Some ''systemctl'', Some ''stop'', Some ''nginx''], 3)],
         environ = Map.empty\<rparr>)
   \<and> run_systemctl (scripted [CompletedProcess ''out'' ''err'' 3]) DSystemCtl_RESTART
       (seasoned (Some ''nginx'')) world0
     = (Inr 3,
        \<lparr>self_result = \<lparr>ACTIVE = Some True, PID = Some 41, ENABLED = Some True,
                         RAW_STDOUT = ''out'', RAW_STDERR = ''err''\<rparr>,
         self_service_name = Some ''nginx'', self_timeout = 3\<rparr>,
        \<lparr>calls = [([Some ''sudo'', Some ''systemctl'', Some ''restart'', Some ''nginx''], 3)],
         environ = Map.empty\<rparr>)
   \<and> fst (run_systemctl (scripted [CompletedProcess ''out'' ''err'' 1])
       DSystemCtl_ENABLE (seasoned (Some ''nginx'')) world0) = Inr 1
   \<and> RAW_STDOUT (self_result (fst (snd (run_systemctl (scripted [CompletedProcess ''out'' ''err'' 1])
       DSystemCtl_ENABLE (seasoned (Some ''nginx'')) world0)))) = []
   \<and> RAW_STDERR (self_result (fst (snd (run_systemctl (scripted [CompletedProcess ''out'' ''err'' 1])
       DSystemCtl_ENABLE (seasoned (Some ''nginx'')) world0)))) = ''systemctl timed out''"
proof -
  let ?run = "scripted [CompletedProcess ''out'' ''err'' 1]"
  let ?self = "seasoned (Some ''nginx'')"
  have "fst (update_status ?run
               (?self\<lparr>self_result := (self_result ?self)\<lparr>RAW_STDOUT := ''out'',
                                                              RAW_STDERR := ''err''\<rparr>\<rparr>)
               (logged DSystemCtl_ENABLE ?self world0)) = Inr ()"
    by (rule update_status_timeout_value)
       (simp_all add: truthy_def seasoned_def scripted_def logged_def world0_def)
  note u = this
  note defs = scripted_def world0_def truthy_def seasoned_def logged_def command_line_def
          DSystemCtl_START_def DSystemCtl_STOP_def DSystemCtl_RESTART_def DSystemCtl_STATUS_def
          DSystemCtl_ENABLE_def DSystemCtl_DISABLE_def SUDO_def SYSTEMCTL_def
  have a: "run_systemctl (scripted []) DSystemCtl_START ?self world0
     = (Inr 5,
        \<lparr>self_result = \<lparr>ACTIVE = Some True, PID = Some 41, ENABLED = Some True,
                         RAW_STDOUT = [], RAW_STDERR = ''systemctl timed out''\<rparr>,
         self_service_name = Some ''nginx'', self_timeout = 3\<rparr>,
        \<lparr>calls = [([Some ''sudo'', Some ''systemctl'', Some ''start'', Some ''nginx''], 3)],
         environ = Map.empty\<rparr>)"
    using run_systemctl_outcomes [where run = "scripted []" and w = world0
            and arg = DSystemCtl_START and self = ?self]
    by (simp add: defs)
  have b: "run_systemctl (scripted [OtherException ''No such file or directory'']) DSystemCtl_STOP
       ?self world0
     = (Inr 5,
        \<lparr>self_result = \<lparr>ACTIVE = Some True, PID = Some 41, ENABLED = Some True,
                         RAW_STDOUT = [], RAW_STDERR = ''No such file or directory''\<rparr>,
         self_service_name = Some ''nginx'', self_timeout = 3\<rparr>,
        \<lparr>calls = [([Some ''sudo'', Some ''systemctl'', Some ''stop'', Some ''nginx''], 3)],
         environ = Map.empty\<rparr>)"
    using run_systemctl_outcomes [where run = "scripted [OtherException ''No such file or directory'']"
            and w = world0 and arg = DSystemCtl_STOP and self = ?self
            and e = "''No such file or directory''"]
    by (simp add: defs)
  have c: "run_systemctl (scripted [CompletedProcess ''out'' ''err'' 3]) DSystemCtl_RESTART
       ?self world0
     = (Inr 3,
        \<lparr>self_result = \<lparr>ACTIVE = Some True, PID = Some 41, ENABLED = Some True,
                         RAW_STDOUT = ''out'', RAW_STDERR = ''err''\<rparr>,
         self_service_name = Some ''nginx'', self_timeout = 3\<rparr>,
        \<lparr>calls = [([Some ''sudo'', Some ''systemctl'', Some ''restart'', Some ''nginx''], 3)],
         environ = Map.empty\<rparr>)"
    using run_systemctl_outcomes [where run = "scripted [CompletedProcess ''out'' ''err'' 3]"
            and w = world0 and arg = DSystemCtl_RESTART and self = ?self
            and out = "''out''" and err = "''err''" and rc = 3]
    by (simp add: defs)
  have first: "?run world0 (command_line DSystemCtl_ENABLE ?self) (self_timeout ?self)
                 = CompletedProcess ''out'' ''err'' 1"
    by (simp add: scripted_def world0_def)
  have second: "?run (logged DSystemCtl_ENABLE ?self world0)
                  (command_line DSystemCtl_STATUS ?self) (self_timeout ?self) = TimeoutExpired"
    by (simp add: scripted_def world0_def logged_def)
  have name: "truthy (self_service_name ?self)"
    by (simp add: truthy_def seasoned_def)
  have d: "fst (run_systemctl ?run DSystemCtl_ENABLE ?self world0) = Inr 1
      \<and> RAW_STDOUT (self_result (fst (snd (run_systemctl ?run DSystemCtl_ENABLE ?self world0)))) = []
      \<and> RAW_STDERR (self_result (fst (snd (run_systemctl ?run DSystemCtl_ENABLE ?self world0))))
          = ''systemctl timed out''"
    using run_systemctl_outcomes [where run = ?run
            and w = world0 and arg = DSystemCtl_ENABLE and self = ?self
            and out = "''out''" and err = "''err''" and rc = 1]
    by (auto simp add: first second name u)
  show ?thesis
    using a b c d by simp
qed

section \<open>\<open>enable\<close> and \<open>disable\<close>\<close>

text \<open>
  Claim C10, as the claim states it, fails: the process of \<open>disable()\<close> completes with
  return code 0, and the call does not return 0: the follow-up status query reports a main
  PID of 4301 digits, \<open>int\<close> raises in the refresh, and \<open>disable()\<close> raises with it.
\<close>

theorem disable_follow_up_counterexample:
  "scripted [CompletedProcess ''Removed symlink'' [] 0, CompletedProcess text_long_pid [] 0]
       world0 (command_line DSystemCtl_DISABLE (seasoned (Some ''nginx'')))
       (self_timeout (seasoned (Some ''nginx'')))
     = CompletedProcess ''Removed symlink'' [] 0
   \<and> fst (disable
         (scripted [CompletedProcess ''Removed symlink'' [] 0, CompletedProcess text_long_pid [] 0])
         (seasoned (Some ''nginx'')) world0)
       = Inl (ValueError_int_max_str_digits 4301)
   \<and> fst (disable
         (scripted [CompletedProcess ''Removed symlink'' [] 0, CompletedProcess text_long_pid [] 0])
         (seasoned (Some ''nginx'')) world0)
       \<noteq> Inr 0"
proof -
  have name: "truthy (self_service_name (seasoned (Some ''nginx'')))"
    by (simp add: truthy_def seasoned_def)
  show ?thesis
    using long_pid_follow_up(1) [OF name, of DSystemCtl_DISABLE "''Removed symlink''" 0 0] name
    by (simp add: disable_def scripted_def world0_def)
qed

text \<open>
  Claim C10, amended. When the process of \<open>enable()\<close> or \<open>disable()\<close> completes, a
  status refresh follows: the log of external calls ends with the command and then the
  status query, the stored streams are the ones the status query left, and active, pid and
  enabled are what that refresh parsed; the call returns the return code of the process
  when the refresh returns, and raises the exception of the refresh when it raises (as it
  does when \<open>int\<close> rejects a main PID of more than 4300 digits). When the process times
  out or cannot be run, the call returns 5, the log ends with the command alone, and
  active, pid and enabled are what they were.
\<close>

theorem enable_disable_follow_up:
  assumes "truthy (self_service_name self)"
      and "(m = enable \<and> arg = DSystemCtl_ENABLE) \<or> (m = disable \<and> arg = DSystemCtl_DISABLE)"
  shows
   "(run w (command_line arg self) (self_timeout self) = CompletedProcess out err rc \<longrightarrow>
       m run self w
         = (case fst (update_status run
                        (self\<lparr>self_result :=
                           (self_result self)\<lparr>RAW_STDOUT := out, RAW_STDERR := err\<rparr>\<rparr>)
                        (logged arg self w)) of
              Inl x \<Rightarrow> Inl x
            | Inr u \<Rightarrow> Inr rc,
            snd (update_status run
                   (self\<lparr>self_result :=
                      (self_result self)\<lparr>RAW_STDOUT := out, RAW_STDERR := err\<rparr>\<rparr>)
                   (logged arg self w)))
     \<and> snd (snd (m run self w)) = logged DSystemCtl_STATUS self (logged arg self w)
     \<and> RAW_STDOUT (self_result (fst (snd (m run self w)))) =
         (case run (logged arg self w) (command_line DSystemCtl_STATUS self) (self_timeout self) of
            CompletedProcess out2 err2 rc2 \<Rightarrow> out2 | TimeoutExpired \<Rightarrow> [] | OtherException x \<Rightarrow> [])
     \<and> RAW_STDERR (self_result (fst (snd (m run self w)))) =
         (case run (logged arg self w) (command_line DSystemCtl_STATUS self) (self_timeout self) of
            CompletedProcess out2 err2 rc2 \<Rightarrow> err2 | TimeoutExpired \<Rightarrow> ''systemctl timed out''
          | OtherException x \<Rightarrow> x)
     \<and> (py_in DMsg_NOT_FOUND (RAW_STDERR (self_result (fst (snd (m run self w))))) \<longrightarrow>
          fst (m run self w) = Inr rc
        \<and> ACTIVE (self_result (fst (snd (m run self w)))) = None
        \<and> PID (self_result (fst (snd (m run self w)))) = None
        \<and> ENABLED (self_result (fst (snd (m run self w)))) = None)
     \<and> (\<not> py_in DMsg_NOT_FOUND (RAW_STDERR (self_result (fst (snd (m run self w))))) \<longrightarrow>
          ACTIVE (self_result (fst (snd (m run self w)))) =
            (if re_search re_active_running (RAW_STDOUT (self_result (fst (snd (m run self w)))))
                  \<noteq> None
             then Some True
             else if re_search re_main_pid_exited
                       (RAW_STDOUT (self_result (fst (snd (m run self w))))) \<noteq> None
             then Some False
             else if re_search re_inactive_dead
                       (RAW_STDOUT (self_result (fst (snd (m run self w))))) \<noteq> None
             then Some False
             else ACTIVE (self_result self))))
    \<and> (run w (command_line arg self) (self_timeout self) = TimeoutExpired
        \<or> run w (command_line arg self) (self_timeout self) = OtherException e \<longrightarrow>
       fst (m run self w) = Inr 5
     \<and> snd (snd (m run self w)) = logged arg self w
     \<and> ACTIVE (self_result (fst (snd (m run self w)))) = ACTIVE (self_result self)
     \<and> PID (self_result (fst (snd (m run self w)))) = PID (self_result self)
     \<and> ENABLED (self_result (fst (snd (m run self w)))) = ENABLED (self_result self))"
proof -
  let ?s = "set_raw out err self"
  let ?w = "logged arg self w"
  have raw: "self\<lparr>self_result := (self_result self)\<lparr>RAW_STDOUT := out, RAW_STDERR := err\<rparr>\<rparr> = ?s"
    by (simp add: set_raw_def)
  have t: "truthy (self_service_name ?s)"
    using assms(1) by simp
  obtain r self1 w1 where run: "run_systemctl run DSystemCtl_STATUS ?s ?w = (r, self1, w1)"
    by (cases "run_systemctl run DSystemCtl_STATUS ?s ?w") auto
  have fr: "stdout (fst (snd (update_status run ?s ?w))) = stdout self1"
           "stderr (fst (snd (update_status run ?s ?w))) = stderr self1"
    using update_status_frame(4,5) [OF t, of run ?w] run by simp_all
  have streams: "stdout self1 =
         (case run ?w (command_line DSystemCtl_STATUS self) (self_timeout self) of
            CompletedProcess out2 err2 rc2 \<Rightarrow> out2 | TimeoutExpired \<Rightarrow> [] | OtherException x \<Rightarrow> [])"
       "stderr self1 =
         (case run ?w (command_line DSystemCtl_STATUS self) (self_timeout self) of
            CompletedProcess out2 err2 rc2 \<Rightarrow> err2 | TimeoutExpired \<Rightarrow> ''systemctl timed out''
          | OtherException x \<Rightarrow> x)"
    using run_status_streams [of run ?s ?w] run
    by (simp_all add: DMsg_TIMEOUT_def split: outcome.splits)
  have found: "update_status run ?s ?w = (Inr (), cleared self1, w1)"
    if "py_in DMsg_NOT_FOUND (stderr self1)"
    using update_status_not_found [OF t run that] .
  have act: "ACTIVE (self_result (fst (snd (update_status run ?s ?w)))) =
        (if re_search re_active_running (stdout self1) \<noteq> None then Some True
         else if re_search re_main_pid_exited (stdout self1) \<noteq> None then Some False
         else if re_search re_inactive_dead (stdout self1) \<noteq> None then Some False
         else ACTIVE (self_result self))"
    if "\<not> py_in DMsg_NOT_FOUND (stderr self1)"
    using update_status_active [OF t run that] by simp
  have whole: "m run self w
      = (case fst (update_status run ?s ?w) of Inl x \<Rightarrow> Inl x | Inr u \<Rightarrow> Inr rc,
         snd (update_status run ?s ?w))"
    if "run w (command_line arg self) (self_timeout self) = CompletedProcess out err rc"
    using that by (simp add: enable_disable_run [OF assms])
  have first: ?thesis
    if c: "run w (command_line arg self) (self_timeout self) = CompletedProcess out err rc"
  proof -
    have st: "RAW_STDOUT (self_result (fst (snd (m run self w)))) = stdout self1"
             "RAW_STDERR (self_result (fst (snd (m run self w)))) = stderr self1"
      using whole [OF c] fr by (simp_all add: stdout_def stderr_def)
    have nf: "fst (m run self w) = Inr rc
        \<and> ACTIVE (self_result (fst (snd (m run self w)))) = None
        \<and> PID (self_result (fst (snd (m run self w)))) = None
        \<and> ENABLED (self_result (fst (snd (m run self w)))) = None"
      if "py_in DMsg_NOT_FOUND (stderr self1)"
      using whole [OF c] found [OF that] by (simp add: cleared_def)
    have ac: "ACTIVE (self_result (fst (snd (m run self w)))) =
        (if re_search re_active_running (stdout self1) \<noteq> None then Some True
         else if re_search re_main_pid_exited (stdout self1) \<noteq> None then Some False
         else if re_search re_inactive_dead (stdout self1) \<noteq> None then Some False
         else ACTIVE (self_result self))"
      if "\<not> py_in DMsg_NOT_FOUND (stderr self1)"
      using whole [OF c] act [OF that] by simp
    have wd: "snd (snd (m run self w)) = logged DSystemCtl_STATUS self ?w"
      using whole [OF c] update_status_frame(3) [OF t, of run ?w] by simp
    show ?thesis
      using c whole [OF c] wd nf ac
      unfolding st raw streams [symmetric]
      by (simp del: not_None_eq)
  qed
  have other: ?thesis
    if "run w (command_line arg self) (self_timeout self) \<noteq> CompletedProcess out err rc"
    using that
    by (auto simp add: enable_disable_run [OF assms] ExitCode_ERROR_def
          split: outcome.splits)
  show ?thesis
    using first other by blast
qed

text \<open>Runs of it: an enable that completes, a disable that times out.\<close>

theorem enable_disable_follow_up_witness:
  "fst (enable (scripted [CompletedProcess ''Created symlink'' [] 0, CompletedProcess text_running [] 0])
       (seasoned (Some ''nginx'')) world0) = Inr 0
   \<and> RAW_STDOUT (self_result (fst (snd (enable
         (scripted [CompletedProcess ''Created symlink'' [] 0, CompletedProcess text_running [] 0])
         (seasoned (Some ''nginx'')) world0)))) = text_running
   \<and> ACTIVE (self_result (fst (snd (enable
         (scripted [CompletedProcess ''Created symlink'' [] 0, CompletedProcess text_running [] 0])
         (seasoned (Some ''nginx'')) world0)))) = Some True
   \<and> calls (snd (snd (enable
         (scripted [CompletedProcess ''Created symlink'' [] 0, CompletedProcess text_running [] 0])
         (seasoned (Some ''nginx'')) world0)))
     = [([Some ''sudo'', Some ''systemctl'', Some ''enable'', Some ''nginx''], 3),
        ([Some ''systemctl'', Some ''status'', Some ''nginx''], 3)]
   \<and> fst (disable (scripted []) (seasoned (Some ''nginx'')) world0) = Inr 5
   \<and> calls (snd (snd (disable (scripted []) (seasoned (Some ''nginx'')) world0)))
     = [([Some ''sudo'', Some ''systemctl'', Some ''disable'', Some ''nginx''], 3)]
   \<and> PID (self_result (fst (snd (disable (scripted []) (seasoned (Some ''nginx'')) world0))))
     = Some 41"
proof -
  let ?run = "scripted [CompletedProcess ''Created symlink'' [] 0,
                        CompletedProcess text_running [] 0]"
  let ?self = "seasoned (Some ''nginx'')"
  let ?s = "set_raw ''Created symlink'' [] ?self"
  let ?w = "logged DSystemCtl_ENABLE ?self world0"
  have name: "truthy (self_service_name ?self)"
    by (simp add: truthy_def seasoned_def)
  have t: "truthy (self_service_name ?s)"
    using name by simp
  have first: "?run world0 (command_line DSystemCtl_ENABLE ?self) (self_timeout ?self)
                 = CompletedProcess ''Created symlink'' [] 0"
    by (simp add: scripted_def world0_def)
  have second: "?run ?w (command_line DSystemCtl_STATUS ?self) (self_timeout ?self)
                  = CompletedProcess text_running [] 0"
    by (simp add: scripted_def world0_def logged_def)
  have run: "run_systemctl ?run DSystemCtl_STATUS ?s ?w
      = (Inr 0, set_raw text_running [] ?s, logged DSystemCtl_STATUS ?s ?w)"
    using second by (simp add: run_systemctl_plain [OF status_plain])
  have nf: "\<not> py_in DMsg_NOT_FOUND (stderr (set_raw text_running [] ?s))"
    by (simp add: DMsg_NOT_FOUND_def)
  have u: "fst (update_status ?run ?s ?w) = Inr ()"
    by (rule update_status_short_pid [OF t run nf])
       (simp add: text_running_def re_search_def re_main_pid_def group1_def)
  have raw: "?self\<lparr>self_result :=
               (self_result ?self)\<lparr>RAW_STDOUT := ''Created symlink'', RAW_STDERR := []\<rparr>\<rparr> = ?s"
    by (simp add: set_raw_def)
  have running: "re_search re_active_running text_running \<noteq> None"
    by (simp add: text_running_def re_search_def re_active_running_def)
  have en: "fst (enable ?run ?self world0) = Inr 0
      \<and> RAW_STDOUT (self_result (fst (snd (enable ?run ?self world0)))) = text_running
      \<and> ACTIVE (self_result (fst (snd (enable ?run ?self world0)))) = Some True
      \<and> snd (snd (enable ?run ?self world0)) = logged DSystemCtl_STATUS ?self ?w"
    using enable_disable_follow_up [OF name, where m = enable and arg = DSystemCtl_ENABLE
            and run = ?run and w = world0 and out = "''Created symlink''" and err = "[]"
            and rc = 0]
          running
    unfolding raw
    by (auto simp add: first second u DMsg_NOT_FOUND_def simp del: not_None_eq)
  have dis: "fst (disable (scripted []) ?self world0) = Inr 5
      \<and> snd (snd (disable (scripted []) ?self world0)) = logged DSystemCtl_DISABLE ?self world0
      \<and> PID (self_result (fst (snd (disable (scripted []) ?self world0))))
          = PID (self_result ?self)"
    using enable_disable_follow_up [OF name, where m = disable and arg = DSystemCtl_DISABLE
            and run = "scripted []" and w = world0]
    by (simp add: scripted_def world0_def)
  show ?thesis
    using en dis
    by (simp add: logged_def command_line_def world0_def seasoned_def
          DSystemCtl_ENABLE_def DSystemCtl_DISABLE_def DSystemCtl_STATUS_def
          SUDO_def SYSTEMCTL_def)
qed

section \<open>Changing the name\<close>

text \<open>
  Claim C3, as the claim states it, fails: on an object named "alpha", \<open>service_name\<close>
  called with "beta" returns "beta", not the name held before the call.
\<close>

theorem service_name_previous_counterexample:
  "truthy (self_service_name (seasoned (Some ''alpha'')))
   \<and> truthy (Some ''beta'')
   \<and> Some ''beta'' \<noteq> self_service_name (seasoned (Some ''alpha''))
   \<and> fst (service_name (scripted []) (Some ''beta'') (seasoned (Some ''alpha'')) world0)
       = Inr (Some ''beta'')
   \<and> fst (service_name (scripted []) (Some ''beta'') (seasoned (Some ''alpha'')) world0)
       \<noteq> Inr (self_service_name (seasoned (Some ''alpha'')))"
proof -
  let ?s = "(seasoned (Some ''alpha''))\<lparr>self_service_name := Some ''beta''\<rparr>"
  have t: "truthy (self_service_name ?s)"
    by (simp add: truthy_def)
  have new: "truthy (Some ''beta'')" "Some ''beta'' \<noteq> self_service_name (seasoned (Some ''alpha''))"
    by (simp_all add: truthy_def seasoned_def)
  have u: "fst (update_status (scripted []) ?s world0) = Inr ()"
    by (rule update_status_timeout_value [OF t]) (simp add: scripted_def world0_def)
  have "fst (service_name (scripted []) (Some ''beta'') (seasoned (Some ''alpha'')) world0)
          = Inr (Some ''beta'')"
    by (simp add: service_name_refresh [OF new] u)
  then show ?thesis
    using new by (simp add: truthy_def seasoned_def)
qed

text \<open>
  Claim C3, amended. For an object whose name is set, \<open>service_name\<close> called with a
  non-empty name different from the current one sets that name and triggers one status
  refresh, for the new name; it returns the new name (not the name held before the call)
  when that refresh returns, and raises the exception of the refresh when it raises (as it
  does when \<open>int\<close> rejects a main PID of more than 4300 digits).
\<close>

theorem service_name_change:
  assumes "truthy (self_service_name self)"
      and "truthy name"
      and "name \<noteq> self_service_name self"
  shows "service_name run name self w
           = (case fst (update_status run (self\<lparr>self_service_name := name\<rparr>) w) of
                Inl x \<Rightarrow> Inl x
              | Inr u \<Rightarrow> Inr name,
              snd (update_status run (self\<lparr>self_service_name := name\<rparr>) w))
       \<and> self_service_name (fst (snd (service_name run name self w))) = name
       \<and> snd (snd (service_name run name self w))
           = logged DSystemCtl_STATUS (self\<lparr>self_service_name := name\<rparr>) w"
proof -
  let ?s = "self\<lparr>self_service_name := name\<rparr>"
  have t: "truthy (self_service_name ?s)"
    using assms(2) by simp
  show ?thesis
    using update_status_frame(1,3) [OF t, where run = run and w = w]
    by (simp add: service_name_refresh [OF assms(2,3)])
qed

text \<open>A run of it, from "alpha" to "beta", with a refresh that returns.\<close>

theorem service_name_change_witness:
  "service_name (scripted [CompletedProcess text_dead [] 3]) (Some ''beta'')
       (seasoned (Some ''alpha'')) world0
     = (Inr (Some ''beta''), snd (update_status (scripted [CompletedProcess text_dead [] 3])
          ((seasoned (Some ''alpha''))\<lparr>self_service_name := Some ''beta''\<rparr>) world0))
   \<and> calls (snd (snd (service_name (scripted [CompletedProcess text_dead [] 3]) (Some ''beta'')
       (seasoned (Some ''alpha'')) world0)))
     = [([Some ''systemctl'', Some ''status'', Some ''beta''], 3)]"
proof -
  let ?run = "scripted [CompletedProcess text_dead [] 3]"
  let ?s = "(seasoned (Some ''alpha''))\<lparr>self_service_name := Some ''beta''\<rparr>"
  have t: "truthy (self_service_name ?s)"
    by (simp add: truthy_def)
  have old: "truthy (self_service_name (seasoned (Some ''alpha'')))"
    by (simp add: truthy_def seasoned_def)
  have new: "truthy (Some ''beta'')" "Some ''beta'' \<noteq> self_service_name (seasoned (Some ''alpha''))"
    by (simp_all add: truthy_def seasoned_def)
  have nf: "\<not> py_in DMsg_NOT_FOUND (stderr (set_raw text_dead [] ?s))"
    by (simp add: DMsg_NOT_FOUND_def)
  have u: "fst (update_status ?run ?s world0) = Inr ()"
    by (rule update_status_short_pid [OF t scripted_status_run nf])
       (simp add: text_dead_def re_search_def re_main_pid_def)
  note th = service_name_change [OF old new, where run = ?run and w = world0]
  have a: "service_name ?run (Some ''beta'') (seasoned (Some ''alpha'')) world0
             = (Inr (Some ''beta''), snd (update_status ?run ?s world0))"
    using th by (simp add: u)
  have b: "calls (snd (snd (service_name ?run (Some ''beta'') (seasoned (Some ''alpha'')) world0)))
             = [([Some ''systemctl'', Some ''status'', Some ''beta''], 3)]"
    using th
    by (auto simp add: seasoned_def logged_def command_line_def world0_def
          DSystemCtl_STATUS_def SYSTEMCTL_def)
  show ?thesis
    using a b by simp
qed

section \<open>A PID that outlives its service\<close>

text \<open>
  Claim C2. The claim says that in every state an object can reach, a pid that is set
  comes with active = true. The source sets pid only when active is true, and clears it
  only when the unit could not be found: a refresh that finds the service stopped sets
  active to false and keeps the pid of the earlier refresh. Here the object is constructed
  while the service runs with main PID 1234, and \<open>running()\<close> is called once the service
  is dead.
\<close>

theorem stale_pid_after_stop:
  "(case init (scripted [CompletedProcess text_running [] 0, CompletedProcess text_dead [] 3])
           denv0 (Some ''nginx'') world0 of
      (Inl e, w1) \<Rightarrow> False
    | (Inr self1, w1) \<Rightarrow>
        pid self1 = Some 1234 \<and> ACTIVE (self_result self1) = Some True \<and>
        (case running (scripted [CompletedProcess text_running [] 0, CompletedProcess text_dead [] 3])
                self1 w1 of
           (r, self2, w2) \<Rightarrow>
             r = Inr (Some False) \<and> pid self2 = Some 1234
             \<and> ACTIVE (self_result self2) = Some False))"
  by (simp add: init_def running_def update_status.simps run_systemctl_plain [OF status_plain]
        scripted_def world0_def denv0_def truthy_def TIMEOUT_def command_line_def logged_def
        set_raw_def stdout_def stderr_def pid_def DMsg_NOT_FOUND_def text_running_def text_dead_def
        re_search_def re_active_running_def re_main_pid_exited_def re_inactive_dead_def
        re_loaded_enabled_def re_loaded_disabled_def re_main_pid_def group1_def py_int_def
        int_max_str_digits_def Let_def)

end
